theory Spec2Isabelle
  imports Complex_Main "HOL-Library.Multiset" "HOL-Library.Product_Lexorder"
begin

section \<open>Embedding search and recommendation (Embeddings.ipynb)\<close>

text \<open>
  The notebook defines three ranking functions: \<open>search_reviews\<close> and
  \<open>search_functions\<close> (cosine similarity of every row of a data frame against the
  embedding of a query text, rows sorted by descending similarity, first \<open>n\<close> rows
  returned) and \<open>recommendations_from_strings\<close> (cosine distances from one string's
  embedding to all of them, indices sorted by ascending distance).

  The functions themselves are embedded line by line. What they call lives in libraries
  (numpy, pandas, scipy, openai.embeddings_utils); each library call is a small definition
  below, written from the library's documented behaviour and marked as such. Two things
  the libraries leave open are parameters of the model:
  \<^item> the embedding service (\<open>get_embedding\<close>, \<open>embedding_from_string\<close>): a function from
    text and model name to a vector;
  \<^item> numpy's \<open>argsort\<close>: both \<open>DataFrame.sort_values\<close> and \<open>np.argsort\<close> run it with the
    default \<open>kind='quicksort'\<close>, which sorts but is documented as not stable, so the model
    takes the sorting function as an argument and the theorems assume only its contract
    (\<open>argsort_ok\<close>).

  Floating-point numbers are modelled as exact reals plus the value \<open>NaN\<close>: rounding,
  overflow, underflow and infinities are outside the model. The theorems on order,
  length, errors and the frame do not depend on the values computed, and those on
  vectors of zeros use only arithmetic that is exact in floating point as well; the
  worked example states its values over the reals.
\<close>

subsection \<open>Values, errors, data frames\<close>

type_synonym vector = "real list"

datatype fval = NaN | Fin real

datatype error = ValueError | IndexError | KeyError

text \<open>
  A data frame is the list of its rows. \<open>label\<close> is the row's index label (it stands for
  every column the functions never touch); \<open>similarities\<close> is \<open>None\<close> while the frame has
  no such column.
\<close>

record 'a row =
  label :: 'a
  ada_embedding :: vector
  code_embedding :: vector
  similarities :: "fval option"

type_synonym 'a frame = "'a row list"

subsection \<open>Library calls\<close>

text \<open>
  A Python loop over a sequence that calls a function which may raise: \<open>Series.apply\<close>
  and a list comprehension both stop at the first exception and produce nothing.
\<close>

fun map_raising :: "('b \<Rightarrow> error + 'c) \<Rightarrow> 'b list \<Rightarrow> error + 'c list" where
  "map_raising f [] = Inr []"
| "map_raising f (x # xs) =
     (case f x of
        Inl e \<Rightarrow> Inl e
      | Inr y \<Rightarrow> (case map_raising f xs of Inl e \<Rightarrow> Inl e | Inr ys \<Rightarrow> Inr (y # ys)))"

text \<open>\<open>np.dot\<close> on two 1-D arrays: the inner product; \<open>ValueError\<close> (shapes not aligned)
  when the lengths differ.\<close>

definition dot :: "vector \<Rightarrow> vector \<Rightarrow> real" where
  "dot a b = sum_list (map2 (*) a b)"

definition np_dot :: "vector \<Rightarrow> vector \<Rightarrow> error + real" where
  "np_dot a b = (if length a = length b then Inr (dot a b) else Inl ValueError)"

text \<open>\<open>np.linalg.norm\<close> of a 1-D array: the square root of the sum of squares.\<close>

definition linalg_norm :: "vector \<Rightarrow> real" where
  "linalg_norm a = sqrt (sum_list (map (\<lambda>x. x * x) a))"

text \<open>
  Division of numpy floats never raises: \<open>0 / 0\<close> is \<open>NaN\<close> (with a warning), and a
  non-zero numerator over zero is an infinity. Over the reals the two call sites below
  never meet the second case: they divide an inner product by a product of norms, which
  is zero only where the inner product is zero as well (lemma \<open>dot_eq_0_if_norm_0\<close>).
  In the code's floating-point arithmetic it can arise, when a norm underflows to zero,
  and every quotient is rounded. Neither is modelled: the model has no infinities, and
  where a theorem below states the value of a quotient it is the value over the reals.
  What is exact in both is the case the theorems on zero vectors use: a vector of zeros
  has inner products and norm exactly zero, and \<open>0 / 0\<close> is \<open>NaN\<close>.
\<close>

definition np_divide :: "real \<Rightarrow> real \<Rightarrow> fval" where
  "np_divide x y = (if y = 0 then NaN else Fin (x / y))"

text \<open>
  \<open>openai.embeddings_utils.cosine_similarity\<close>:
  \<^verbatim>\<open>return np.dot(a, b) / (np.linalg.norm(a) * np.linalg.norm(b))\<close>
  The division has no guard. The value is that of the formula over the reals; the code
  computes the same formula in floating point, so its result can differ from it in the
  last bits (a non-zero vector against itself need not give exactly 1).
\<close>

definition cosine_similarity :: "vector \<Rightarrow> vector \<Rightarrow> error + fval" where
  "cosine_similarity a b =
     (case np_dot a b of
        Inl e \<Rightarrow> Inl e
      | Inr d \<Rightarrow> Inr (np_divide d (linalg_norm a * linalg_norm b)))"

text \<open>\<open>df['similarities'] = col\<close>: the column is added, or overwritten, in place.\<close>

definition set_similarities :: "'a frame \<Rightarrow> fval list \<Rightarrow> 'a frame" where
  "set_similarities df col = map2 (\<lambda>r s. r\<lparr>similarities := Some s\<rparr>) df col"

text \<open>
  The order numpy sorts floats in: numbers ascending, every \<open>NaN\<close> after them. As a key
  into the lexicographic order on pairs (\<open>False < True\<close>).
\<close>

fun np_key :: "fval \<Rightarrow> bool \<times> real" where
  "np_key NaN = (True, 0)"
| "np_key (Fin x) = (False, x)"

text \<open>
  The contract of \<open>ndarray.argsort\<close> on a 1-D float array, for every \<open>kind\<close>: the result
  holds each index once, and the array read through it is sorted. Nothing is promised
  about the order of equal elements under the default \<open>kind='quicksort'\<close>.
\<close>

definition argsort_ok :: "(fval list \<Rightarrow> nat list) \<Rightarrow> bool" where
  "argsort_ok argsort \<longleftrightarrow>
     (\<forall>xs. mset (argsort xs) = mset [0..<length xs] \<and>
           sorted (map (\<lambda>i. np_key (xs ! i)) (argsort xs)))"

text \<open>
  \<open>pandas.core.sorting.nargsort(items, kind, ascending, na_position='last')\<close>: the
  \<open>NaN\<close> positions are set aside and appended in their original order; the other
  values are sorted by \<open>argsort\<close>, for a descending sort reversed before and after:
  \<^verbatim>\<open>
  idx = np.arange(len(items))
  non_nans = items[~mask]; non_nan_idx = idx[~mask]; nan_idx = np.nonzero(mask)[0]
  if not ascending:
      non_nans = non_nans[::-1]; non_nan_idx = non_nan_idx[::-1]
  indexer = non_nan_idx[non_nans.argsort(kind=kind)]
  if not ascending:
      indexer = indexer[::-1]
  indexer = np.concatenate([indexer, nan_idx])\<close>
\<close>

definition nargsort :: "(fval list \<Rightarrow> nat list) \<Rightarrow> fval list \<Rightarrow> bool \<Rightarrow> nat list" where
  "nargsort argsort items ascending =
     (let idx = [0..<length items];
          non_nan_idx = filter (\<lambda>i. items ! i \<noteq> NaN) idx;
          nan_idx = filter (\<lambda>i. items ! i = NaN) idx;
          non_nans = map (\<lambda>i. items ! i) non_nan_idx
      in if ascending
         then map (\<lambda>j. non_nan_idx ! j) (argsort non_nans) @ nan_idx
         else rev (map (\<lambda>j. rev non_nan_idx ! j) (argsort (rev non_nans))) @ nan_idx)"

text \<open>
  \<open>df.sort_values('similarities', ascending=...)\<close>: a new frame, the rows taken through
  the indexer; \<open>KeyError\<close> when the frame has no such column.
\<close>

definition sort_values_similarities ::
  "(fval list \<Rightarrow> nat list) \<Rightarrow> 'a frame \<Rightarrow> bool \<Rightarrow> error + 'a frame" where
  "sort_values_similarities argsort df ascending =
     (case those (map similarities df) of
        None \<Rightarrow> Inl KeyError
      | Some items \<Rightarrow> Inr (map (\<lambda>i. df ! i) (nargsort argsort items ascending)))"

text \<open>\<open>df.head(n)\<close>: the first \<open>n\<close> rows; for negative \<open>n\<close> all rows but the last \<open>-n\<close>.\<close>

definition head :: "'b list \<Rightarrow> int \<Rightarrow> 'b list" where
  "head df n = (if 0 \<le> n then take (nat n) df else take (length df - nat (- n)) df)"

text \<open>\<open>xs[i]\<close> on a Python list: a negative index counts from the end, an index out of
  range raises \<open>IndexError\<close>.\<close>

definition list_getitem :: "'b list \<Rightarrow> int \<Rightarrow> error + 'b" where
  "list_getitem xs i =
     (if 0 \<le> i \<and> i < int (length xs) then Inr (xs ! nat i)
      else if i < 0 \<and> - int (length xs) \<le> i then Inr (xs ! nat (int (length xs) + i))
      else Inl IndexError)"

text \<open>
  \<open>scipy.spatial.distance.cosine(u, v)\<close>, as of scipy 1.12:
  \<^verbatim>\<open>
  uv = np.dot(u, v); uu = np.dot(u, u); vv = np.dot(v, v)
  dist = 1.0 - uv / math.sqrt(uu * vv)
  return np.clip(dist, 0.0, 2.0)\<close>
\<close>

definition spatial_distance_cosine :: "vector \<Rightarrow> vector \<Rightarrow> error + fval" where
  "spatial_distance_cosine u v =
     (case np_dot u v of
        Inl e \<Rightarrow> Inl e
      | Inr uv \<Rightarrow>
          (case np_divide uv (sqrt (dot u u * dot v v)) of
             NaN \<Rightarrow> Inr NaN
           | Fin c \<Rightarrow> Inr (Fin (min 2 (max 0 (1 - c))))))"

text \<open>
  The other three metrics of the library's table. \<open>u - v\<close> on two 1-D arrays
  broadcasts: the lengths must be equal, or one of them 1; otherwise numpy raises
  \<open>ValueError\<close>.
  \<^verbatim>\<open>
  cityblock(u, v)  = abs(u - v).sum()
  euclidean(u, v)  = norm(u - v, ord=2)
  chebyshev(u, v)  = max(abs(u - v))      # ValueError on an empty array\<close>
\<close>

definition np_subtract :: "vector \<Rightarrow> vector \<Rightarrow> error + vector" where
  "np_subtract u v =
     (if length u = length v then Inr (map2 (-) u v)
      else if length u = 1 then Inr (map (\<lambda>y. hd u - y) v)
      else if length v = 1 then Inr (map (\<lambda>x. x - hd v) u)
      else Inl ValueError)"

definition spatial_distance_cityblock :: "vector \<Rightarrow> vector \<Rightarrow> error + fval" where
  "spatial_distance_cityblock u v =
     (case np_subtract u v of
        Inl e \<Rightarrow> Inl e
      | Inr d \<Rightarrow> Inr (Fin (sum_list (map abs d))))"

definition spatial_distance_euclidean :: "vector \<Rightarrow> vector \<Rightarrow> error + fval" where
  "spatial_distance_euclidean u v =
     (case np_subtract u v of
        Inl e \<Rightarrow> Inl e
      | Inr d \<Rightarrow> Inr (Fin (linalg_norm d)))"

definition spatial_distance_chebyshev :: "vector \<Rightarrow> vector \<Rightarrow> error + fval" where
  "spatial_distance_chebyshev u v =
     (case np_subtract u v of
        Inl e \<Rightarrow> Inl e
      | Inr d \<Rightarrow>
          (case map abs d of
             [] \<Rightarrow> Inl ValueError
           | x # xs \<Rightarrow> Inr (Fin (fold max xs x))))"

text \<open>
  \<open>embeddings_utils.distances_from_embeddings\<close>: for every embedding the metric is
  looked up by name in a table and applied; a name that is not in the table raises
  \<open>KeyError\<close> at the first embedding (and nothing is raised when there is none). The
  notebook only ever passes \<open>"cosine"\<close>.
  \<^verbatim>\<open>
  distance_metrics = {"cosine": spatial.distance.cosine, "L1": spatial.distance.cityblock,
                      "L2": spatial.distance.euclidean, "Linf": spatial.distance.chebyshev}
  distances = [distance_metrics[distance_metric](query_embedding, embedding)
               for embedding in embeddings]
  return distances\<close>
\<close>

definition distance_metrics :: "string \<Rightarrow> (vector \<Rightarrow> vector \<Rightarrow> error + fval) option" where
  "distance_metrics =
     map_of [(''cosine'', spatial_distance_cosine), (''L1'', spatial_distance_cityblock),
             (''L2'', spatial_distance_euclidean), (''Linf'', spatial_distance_chebyshev)]"

definition distances_from_embeddings ::
  "vector \<Rightarrow> vector list \<Rightarrow> string \<Rightarrow> error + fval list" where
  "distances_from_embeddings query_embedding embeddings distance_metric =
     map_raising
       (\<lambda>embedding. case distance_metrics distance_metric of
                      None \<Rightarrow> Inl KeyError
                    | Some metric \<Rightarrow> metric query_embedding embedding)
       embeddings"

text \<open>\<open>embeddings_utils.indices_of_nearest_neighbors_from_distances\<close>:
  \<^verbatim>\<open>return np.argsort(distances)\<close>\<close>

definition indices_of_nearest_neighbors_from_distances ::
  "(fval list \<Rightarrow> nat list) \<Rightarrow> fval list \<Rightarrow> nat list" where
  "indices_of_nearest_neighbors_from_distances argsort distances = argsort distances"

subsection \<open>The notebook's functions\<close>

text \<open>
  \<^verbatim>\<open>
  def search_reviews(df, product_description, n=3, pprint=True):
     embedding = get_embedding(product_description, model='text-embedding-3-small')
     df['similarities'] = df.ada_embedding.apply(lambda x: cosine_similarity(x, embedding))
     res = df.sort_values('similarities', ascending=False).head(n)
     return res\<close>
  The argument \<open>n\<close> is \<open>None\<close> when the caller leaves it out (the default 3 applies);
  \<open>pprint\<close> is never read. The function writes to the caller's frame, so the model
  returns the frame as the call leaves it together with the outcome: the returned frame,
  or the exception raised.
\<close>

definition search_reviews ::
  "(fval list \<Rightarrow> nat list) \<Rightarrow> (string \<Rightarrow> string \<Rightarrow> vector) \<Rightarrow>
   'a frame \<Rightarrow> string \<Rightarrow> int option \<Rightarrow> bool \<Rightarrow> 'a frame \<times> (error + 'a frame)" where
  "search_reviews argsort get_embedding df product_description n pprint =
     (let n = (case n of None \<Rightarrow> 3 | Some k \<Rightarrow> k);
          embedding = get_embedding product_description ''text-embedding-3-small''
      in case map_raising (\<lambda>x. cosine_similarity x embedding) (map ada_embedding df) of
           Inl e \<Rightarrow> (df, Inl e)
         | Inr col \<Rightarrow>
             (let df' = set_similarities df col
              in (df', case sort_values_similarities argsort df' False of
                         Inl e \<Rightarrow> Inl e
                       | Inr sorted_df \<Rightarrow> Inr (head sorted_df n))))"

text \<open>
  \<^verbatim>\<open>
  def search_functions(df, code_query, n=3, pprint=True, n_lines=7):
     embedding = get_embedding(code_query, model='text-embedding-3-small')
     df['similarities'] = df.code_embedding.apply(lambda x: cosine_similarity(x, embedding))

     res = df.sort_values('similarities', ascending=False).head(n)
     return res\<close>
\<close>

definition search_functions ::
  "(fval list \<Rightarrow> nat list) \<Rightarrow> (string \<Rightarrow> string \<Rightarrow> vector) \<Rightarrow>
   'a frame \<Rightarrow> string \<Rightarrow> int option \<Rightarrow> bool \<Rightarrow> int \<Rightarrow> 'a frame \<times> (error + 'a frame)" where
  "search_functions argsort get_embedding df code_query n pprint n_lines =
     (let n = (case n of None \<Rightarrow> 3 | Some k \<Rightarrow> k);
          embedding = get_embedding code_query ''text-embedding-3-small''
      in case map_raising (\<lambda>x. cosine_similarity x embedding) (map code_embedding df) of
           Inl e \<Rightarrow> (df, Inl e)
         | Inr col \<Rightarrow>
             (let df' = set_similarities df col
              in (df', case sort_values_similarities argsort df' False of
                         Inl e \<Rightarrow> Inl e
                       | Inr sorted_df \<Rightarrow> Inr (head sorted_df n))))"

text \<open>
  \<^verbatim>\<open>
  def recommendations_from_strings(strings, index_of_source_string,
                                   model="text-embedding-3-small") -> List[int]:
     embeddings = [embedding_from_string(string, model=model) for string in strings]
     query_embedding = embeddings[index_of_source_string]
     distances = distances_from_embeddings(query_embedding, embeddings, distance_metric="cosine")
     indices_of_nearest_neighbors = indices_of_nearest_neighbors_from_distances(distances)
     return indices_of_nearest_neighbors\<close>
\<close>

definition recommendations_from_strings ::
  "(fval list \<Rightarrow> nat list) \<Rightarrow> (string \<Rightarrow> string \<Rightarrow> vector) \<Rightarrow>
   string list \<Rightarrow> int \<Rightarrow> string \<Rightarrow> error + nat list" where
  "recommendations_from_strings argsort embedding_from_string strings index_of_source_string model =
     (let embeddings = map (\<lambda>string. embedding_from_string string model) strings
      in case list_getitem embeddings index_of_source_string of
           Inl e \<Rightarrow> Inl e
         | Inr query_embedding \<Rightarrow>
             (case distances_from_embeddings query_embedding embeddings ''cosine'' of
                Inl e \<Rightarrow> Inl e
              | Inr distances \<Rightarrow>
                  Inr (indices_of_nearest_neighbors_from_distances argsort distances)))"

subsection \<open>Reading a result\<close>

text \<open>
  The frame a search returns carries similarities; the cosine distance of a row is one
  minus its similarity (\<open>NaN\<close> stays \<open>NaN\<close>).
\<close>

fun distance_of_similarity :: "fval \<Rightarrow> fval" where
  "distance_of_similarity NaN = NaN"
| "distance_of_similarity (Fin s) = Fin (1 - s)"

text \<open>
  One sorting function that meets the contract, used to run the model on concrete
  inputs: a stable insertion sort of the positions by their values.
\<close>

definition insertion_argsort :: "fval list \<Rightarrow> nat list" where
  "insertion_argsort xs = map snd (sort_key (\<lambda>p. np_key (fst p)) (zip xs [0..<length xs]))"

text \<open>
  Another one that meets the contract and orders equal values the other way round: the
  same insertion sort, fed the positions from the last to the first.
\<close>

definition reversing_argsort :: "fval list \<Rightarrow> nat list" where
  "reversing_argsort xs =
     map snd (sort_key (\<lambda>p. np_key (fst p)) (rev (zip xs [0..<length xs])))"

subsection \<open>Auxiliary definitions for the proofs\<close>

text \<open>
  \<open>search_reviews\<close> and \<open>search_functions\<close> differ only in the column they read;
  \<open>search_by_column\<close> is their common body. \<open>similarity_column\<close> and
  \<open>distance_column\<close> are the columns \<open>apply\<close> and the list comprehension compute when no call raises, and
  \<open>ranked\<close> is the frame \<open>sort_values\<close> returns.
\<close>

definition search_by_column ::
  "(fval list \<Rightarrow> nat list) \<Rightarrow> vector \<Rightarrow> vector list \<Rightarrow> 'a frame \<Rightarrow> int \<Rightarrow>
   'a frame \<times> (error + 'a frame)" where
  "search_by_column argsort embedding column df n =
     (case map_raising (\<lambda>x. cosine_similarity x embedding) column of
        Inl e \<Rightarrow> (df, Inl e)
      | Inr col \<Rightarrow>
          (let df' = set_similarities df col
           in (df', case sort_values_similarities argsort df' False of
                      Inl e \<Rightarrow> Inl e
                    | Inr sorted_df \<Rightarrow> Inr (head sorted_df n))))"

definition similarity_column :: "vector \<Rightarrow> vector list \<Rightarrow> fval list" where
  "similarity_column embedding column =
     map (\<lambda>x. np_divide (dot x embedding) (linalg_norm x * linalg_norm embedding)) column"

definition ranked :: "(fval list \<Rightarrow> nat list) \<Rightarrow> 'a frame \<Rightarrow> fval list \<Rightarrow> 'a frame" where
  "ranked argsort df col =
     map (\<lambda>i. set_similarities df col ! i) (nargsort argsort col False)"

definition distance_column :: "vector \<Rightarrow> vector list \<Rightarrow> fval list" where
  "distance_column u vs =
     map (\<lambda>v. case np_divide (dot u v) (sqrt (dot u u * dot v v)) of
               NaN \<Rightarrow> NaN
             | Fin c \<Rightarrow> Fin (min 2 (max 0 (1 - c)))) vs"

subsection \<open>Concrete inputs\<close>

text \<open>Frames and embedding functions on which the model is run below.\<close>

definition example_frame :: "string frame" where
  "example_frame =
     [\<lparr>label = ''a'', ada_embedding = [1, 0], code_embedding = [1, 0], similarities = None\<rparr>,
      \<lparr>label = ''b'', ada_embedding = [0, 1], code_embedding = [0, 1], similarities = None\<rparr>,
      \<lparr>label = ''c'', ada_embedding = [1, 1], code_embedding = [1, 1], similarities = None\<rparr>]"

definition four_rows :: "string frame" where
  "four_rows =
     [\<lparr>label = ''a'', ada_embedding = [1, 0], code_embedding = [1, 0], similarities = None\<rparr>,
      \<lparr>label = ''b'', ada_embedding = [0, 1], code_embedding = [0, 1], similarities = None\<rparr>,
      \<lparr>label = ''c'', ada_embedding = [- 1, 0], code_embedding = [- 1, 0], similarities = None\<rparr>,
      \<lparr>label = ''d'', ada_embedding = [0, 0], code_embedding = [0, 0], similarities = None\<rparr>]"

definition unit_embedding :: "string \<Rightarrow> string \<Rightarrow> vector" where
  "unit_embedding text model = [1, 0]"

definition letter_embedding :: "string \<Rightarrow> string \<Rightarrow> vector" where
  "letter_embedding text model =
     (if text = ''a'' then [1, 0] else if text = ''b'' then [0, 1] else [1, 1])"







section \<open>Facts about the library calls\<close>

lemma map_raising_Inr_iff:
  "map_raising f xs = Inr ys \<longleftrightarrow> map f xs = map Inr ys"
proof (induction xs arbitrary: ys)
  case Nil
  then show ?case by auto
next
  case (Cons a xs)
  show ?case
  proof (cases "f a")
    case (Inl e)
    then show ?thesis by (cases ys) auto
  next
    case (Inr y)
    show ?thesis
    proof (cases "map_raising f xs")
      case (Inl e)
      with Cons.IH have "\<And>zs. map f xs \<noteq> map Inr zs" by (metis sum.distinct(1))
      with Inl Inr show ?thesis by (cases ys) auto
    next
      case r: (Inr zs)
      with Cons.IH[of zs] have "map f xs = map Inr zs" by simp
      with r Inr show ?thesis by (cases ys) (auto simp: inj_map_eq_map)
    qed
  qed
qed

lemma map_raising_Inl_D:
  "map_raising f xs = Inl e \<Longrightarrow> \<exists>x\<in>set xs. f x = Inl e"
  by (induction xs) (auto split: sum.splits)

lemma map_raising_raises:
  "x \<in> set xs \<Longrightarrow> f x = Inl e \<Longrightarrow> \<exists>e'. map_raising f xs = Inl e'"
  by (induction xs) (auto split: sum.splits)

lemma cosine_similarity_Inl_iff:
  "cosine_similarity a b = Inl e \<longleftrightarrow> length a \<noteq> length b \<and> e = ValueError"
  by (auto simp: cosine_similarity_def np_dot_def)

lemma cosine_similarity_Inr:
  "length a = length b \<Longrightarrow>
   cosine_similarity a b = Inr (np_divide (dot a b) (linalg_norm a * linalg_norm b))"
  by (simp add: cosine_similarity_def np_dot_def)

lemma apply_cosine_raises:
  assumes "\<exists>x\<in>set xs. length x \<noteq> length emb"
  shows "map_raising (\<lambda>x. cosine_similarity x emb) xs = Inl ValueError"
proof -
  from assms obtain x where "x \<in> set xs" "cosine_similarity x emb = Inl ValueError"
    by (auto simp: cosine_similarity_Inl_iff)
  then obtain e where e: "map_raising (\<lambda>x. cosine_similarity x emb) xs = Inl e"
    using map_raising_raises[of x xs "\<lambda>x. cosine_similarity x emb"] by blast
  then have "e = ValueError"
    by (auto dest!: map_raising_Inl_D simp: cosine_similarity_Inl_iff)
  with e show ?thesis by simp
qed

lemma apply_cosine_returns:
  assumes "\<forall>x\<in>set xs. length x = length emb"
  shows "map_raising (\<lambda>x. cosine_similarity x emb) xs =
         Inr (map (\<lambda>x. np_divide (dot x emb) (linalg_norm x * linalg_norm emb)) xs)"
  using assms by (simp add: map_raising_Inr_iff cosine_similarity_Inr)

lemma those_map_Some: "those (map Some xs) = Some xs"
  by (induction xs) auto

lemma similarities_set_similarities:
  "length col = length df \<Longrightarrow> map similarities (set_similarities df col) = map Some col"
  by (induction df col rule: list_induct2') (auto simp: set_similarities_def)

lemma label_set_similarities:
  "length col = length df \<Longrightarrow> map label (set_similarities df col) = map label df"
  by (induction df col rule: list_induct2') (auto simp: set_similarities_def)

lemma length_set_similarities:
  "length col = length df \<Longrightarrow> length (set_similarities df col) = length df"
  by (simp add: set_similarities_def)


section \<open>Sorting\<close>

lemma inj_np_key: "inj np_key"
proof (rule injI)
  fix a b assume "np_key a = np_key b"
  then show "a = b" by (cases a; cases b) auto
qed




text \<open>What a sorting function that meets the contract returns.\<close>

lemma argsort_ok_mset: "argsort_ok f \<Longrightarrow> mset (f xs) = mset [0..<length xs]"
  by (simp add: argsort_ok_def)

lemma argsort_ok_set: "argsort_ok f \<Longrightarrow> set (f xs) = {0..<length xs}"
  by (metis argsort_ok_mset set_mset_mset set_upt)

lemma argsort_ok_sorted: "argsort_ok f \<Longrightarrow> sorted (map (\<lambda>i. np_key (xs ! i)) (f xs))"
  by (simp add: argsort_ok_def)

lemma take_through_perm:
  assumes "mset p = mset [0..<length xs]"
  shows "mset (map (\<lambda>i. xs ! i) p) = mset xs"
proof -
  have "mset (map (\<lambda>i. xs ! i) p) = image_mset (\<lambda>i. xs ! i) (mset p)" by simp
  also have "\<dots> = mset (map (\<lambda>i. xs ! i) [0..<length xs])" using assms by simp
  also have "\<dots> = mset xs" by (simp add: map_nth)
  finally show ?thesis .
qed

lemma nargsort_desc_eq:
  "nargsort f items False =
     rev (map (\<lambda>j. rev (filter (\<lambda>i. items ! i \<noteq> NaN) [0..<length items]) ! j)
            (f (rev (map (\<lambda>i. items ! i) (filter (\<lambda>i. items ! i \<noteq> NaN) [0..<length items])))))
     @ filter (\<lambda>i. items ! i = NaN) [0..<length items]"
  by (simp add: nargsort_def Let_def)

lemma non_nans_eq_filter:
  "map (\<lambda>i. items ! i) (filter (\<lambda>i. items ! i \<noteq> NaN) [0..<length items]) = filter (\<lambda>v. v \<noteq> NaN) items"
proof -
  have "map (\<lambda>i. items ! i) (filter (\<lambda>i. items ! i \<noteq> NaN) [0..<length items])
        = filter (\<lambda>v. v \<noteq> NaN) (map (\<lambda>i. items ! i) [0..<length items])"
    by (simp add: filter_map comp_def)
  then show ?thesis by (simp add: map_nth)
qed

lemma nans_eq_filter:
  "map (\<lambda>i. items ! i) (filter (\<lambda>i. items ! i = NaN) [0..<length items]) = filter (\<lambda>v. v = NaN) items"
proof -
  have "map (\<lambda>i. items ! i) (filter (\<lambda>i. items ! i = NaN) [0..<length items])
        = filter (\<lambda>v. v = NaN) (map (\<lambda>i. items ! i) [0..<length items])"
    by (simp add: filter_map comp_def)
  then show ?thesis by (simp add: map_nth)
qed

text \<open>The values read through the descending indexer.\<close>

lemma nargsort_desc_values:
  assumes "argsort_ok f"
  shows "map (\<lambda>i. items ! i) (nargsort f items False) =
         rev (map (\<lambda>j. rev (filter (\<lambda>v. v \<noteq> NaN) items) ! j) (f (rev (filter (\<lambda>v. v \<noteq> NaN) items))))
         @ filter (\<lambda>v. v = NaN) items"
proof -
  let ?I = "filter (\<lambda>i. items ! i \<noteq> NaN) [0..<length items]"
  let ?V = "filter (\<lambda>v. v \<noteq> NaN) items"
  have V: "map (\<lambda>i. items ! i) ?I = ?V" by (rule non_nans_eq_filter)
  then have len: "length ?I = length ?V" by (metis length_map)
  have nth: "rev ?V ! j = items ! (rev ?I ! j)" if "j < length ?I" for j
  proof -
    have "rev ?V = map (\<lambda>i. items ! i) (rev ?I)"
      unfolding V[symmetric] by (rule rev_map)
    then show ?thesis using that by simp
  qed
  have "\<forall>j\<in>set (f (rev ?V)). j < length ?I"
    using argsort_ok_set[OF assms, of "rev ?V"] len by simp
  then have "map (\<lambda>j. items ! (rev ?I ! j)) (f (rev ?V)) = map (\<lambda>j. rev ?V ! j) (f (rev ?V))"
    using nth by simp
  then show ?thesis
    unfolding nargsort_desc_eq V by (simp add: rev_map nans_eq_filter comp_def)
qed

lemma nargsort_mset:
  assumes "argsort_ok f"
  shows "mset (nargsort f items False) = mset [0..<length items]"
proof -
  let ?I = "filter (\<lambda>i. items ! i \<noteq> NaN) [0..<length items]"
  let ?V = "map (\<lambda>i. items ! i) ?I"
  have "mset (f (rev ?V)) = mset [0..<length (rev ?I)]"
    using argsort_ok_mset[OF assms, of "rev ?V"] by simp
  then have "mset (map (\<lambda>j. rev ?I ! j) (f (rev ?V))) = mset (rev ?I)"
    by (rule take_through_perm)
  moreover have "mset ?I + mset (filter (\<lambda>i. items ! i = NaN) [0..<length items]) = mset [0..<length items]"
    using multiset_partition[of "mset [0..<length items]" "\<lambda>i. items ! i \<noteq> NaN"] by simp
  ultimately show ?thesis
    unfolding nargsort_desc_eq by simp
qed



section \<open>The searches and the recommendation, step by step\<close>

lemma search_reviews_eq:
  "search_reviews argsort get_embedding df q n pprint =
   search_by_column argsort (get_embedding q ''text-embedding-3-small'') (map ada_embedding df) df
     (case n of None \<Rightarrow> 3 | Some k \<Rightarrow> k)"
  by (simp add: search_reviews_def search_by_column_def)

lemma search_functions_eq:
  "search_functions argsort get_embedding df q n pprint n_lines =
   search_by_column argsort (get_embedding q ''text-embedding-3-small'') (map code_embedding df) df
     (case n of None \<Rightarrow> 3 | Some k \<Rightarrow> k)"
  by (simp add: search_functions_def search_by_column_def)

lemma length_similarity_column [simp]:
  "length (similarity_column emb column) = length column"
  by (simp add: similarity_column_def)

lemma search_by_column_raises:
  "\<exists>x\<in>set column. length x \<noteq> length emb \<Longrightarrow>
   search_by_column argsort emb column df n = (df, Inl ValueError)"
  by (simp add: search_by_column_def apply_cosine_raises)

lemma search_by_column_returns:
  assumes "length column = length df" and "\<forall>x\<in>set column. length x = length emb"
  shows "search_by_column argsort emb column df n =
         (set_similarities df (similarity_column emb column),
          Inr (head (ranked argsort df (similarity_column emb column)) n))"
  using assms
  by (simp add: search_by_column_def apply_cosine_returns[OF assms(2)]
      similarity_column_def[symmetric] sort_values_similarities_def
      similarities_set_similarities those_map_Some ranked_def Let_def)

lemma nth_set_similarities:
  "length col = length df \<Longrightarrow> i < length df \<Longrightarrow>
   set_similarities df col ! i = (df ! i)\<lparr>similarities := Some (col ! i)\<rparr>"
  by (simp add: set_similarities_def)

lemma nargsort_set:
  "argsort_ok f \<Longrightarrow> set (nargsort f items False) = {0..<length items}"
  by (metis nargsort_mset set_mset_mset set_upt)

lemma ranked_mset:
  assumes "argsort_ok f" and "length col = length df"
  shows "mset (ranked f df col) = mset (set_similarities df col)"
  unfolding ranked_def
  by (rule take_through_perm) (simp add: nargsort_mset[OF assms(1)] length_set_similarities assms(2))

lemma ranked_length:
  "argsort_ok f \<Longrightarrow> length col = length df \<Longrightarrow> length (ranked f df col) = length df"
  by (metis ranked_mset length_set_similarities size_mset)

lemma ranked_similarities:
  assumes "argsort_ok f" and "length col = length df"
  shows "map similarities (ranked f df col) = map Some (map (\<lambda>i. col ! i) (nargsort f col False))"
  using nargsort_set[OF assms(1), of col] assms(2)
  by (auto simp: ranked_def nth_set_similarities)

lemma ranked_labels:
  assumes "argsort_ok f" and "length col = length df"
  shows "mset (map label (ranked f df col)) = mset (map label df)"
  by (metis assms label_set_similarities mset_map ranked_mset)


lemma head_map: "head (map g xs) n = map g (head xs n)"
  by (simp add: head_def take_map)


lemma length_head_nonneg: "0 \<le> n \<Longrightarrow> length (head xs n) = min (nat n) (length xs)"
  by (simp add: head_def min.commute)

lemma head_all: "int (length xs) \<le> n \<Longrightarrow> head xs n = xs"
  by (simp add: head_def)


lemma argsort_by_sort_key:
  assumes "mset zs = mset (zip xs [0..<length xs])"
  shows "mset (map snd (sort_key (\<lambda>p. np_key (fst p)) zs)) = mset [0..<length xs]"
    and "sorted (map (\<lambda>i. np_key (xs ! i)) (map snd (sort_key (\<lambda>p. np_key (fst p)) zs)))"
proof -
  let ?S = "sort_key (\<lambda>p. np_key (fst p)) zs"
  have "mset (map snd ?S) = image_mset snd (mset zs)"
    by simp
  also have "\<dots> = mset (map snd (zip xs [0..<length xs]))"
    unfolding assms by (simp only: mset_map)
  also have "map snd (zip xs [0..<length xs]) = [0..<length xs]"
    by (simp add: map_snd_zip)
  finally show "mset (map snd ?S) = mset [0..<length xs]" .
  have "set ?S = set (zip xs [0..<length xs])"
    using assms by (metis set_mset_mset set_sort)
  then have "\<forall>p\<in>set ?S. fst p = xs ! snd p"
    by (auto simp: set_zip)
  then have "map (\<lambda>i. np_key (xs ! i)) (map snd ?S) = map (\<lambda>p. np_key (fst p)) ?S"
    by simp
  then show "sorted (map (\<lambda>i. np_key (xs ! i)) (map snd ?S))"
    by (simp only: sorted_sort_key)
qed

lemma argsort_ok_insertion_argsort: "argsort_ok insertion_argsort"
  unfolding argsort_ok_def insertion_argsort_def
  by (intro allI conjI argsort_by_sort_key) simp_all


text \<open>The steps of \<open>recommendations_from_strings\<close>.\<close>

lemma length_distance_column [simp]: "length (distance_column u vs) = length vs"
  by (simp add: distance_column_def)

lemma spatial_distance_cosine_Inl_iff:
  "spatial_distance_cosine u v = Inl e \<longleftrightarrow> length u \<noteq> length v \<and> e = ValueError"
  by (auto simp: spatial_distance_cosine_def np_dot_def split: fval.splits)

lemma spatial_distance_cosine_Inr:
  "length u = length v \<Longrightarrow>
   spatial_distance_cosine u v =
     Inr (case np_divide (dot u v) (sqrt (dot u u * dot v v)) of
            NaN \<Rightarrow> NaN
          | Fin c \<Rightarrow> Fin (min 2 (max 0 (1 - c))))"
  by (auto simp: spatial_distance_cosine_def np_dot_def split: fval.splits)

lemma distances_from_embeddings_returns:
  assumes "\<forall>v\<in>set vs. length v = length u"
  shows "distances_from_embeddings u vs ''cosine'' = Inr (distance_column u vs)"
  using assms
  by (simp add: distances_from_embeddings_def distance_metrics_def map_raising_Inr_iff
      spatial_distance_cosine_Inr distance_column_def)

lemma list_getitem_in_range:
  "0 \<le> i \<Longrightarrow> i < int (length xs) \<Longrightarrow> list_getitem xs i = Inr (xs ! nat i)"
  by (simp add: list_getitem_def)

lemma list_getitem_empty: "list_getitem [] i = Inl IndexError"
  by (simp add: list_getitem_def)

lemma recommendations_returns:
  assumes "0 \<le> i" and "i < int (length strings)"
    and "\<forall>s\<in>set strings. length (efs s model) = length (efs (strings ! nat i) model)"
  shows "recommendations_from_strings argsort efs strings i model =
         Inr (argsort (distance_column (efs (strings ! nat i) model) (map (\<lambda>s. efs s model) strings)))"
proof -
  let ?E = "map (\<lambda>s. efs s model) strings"
  have q: "list_getitem ?E i = Inr (efs (strings ! nat i) model)"
    using assms(1,2) by (simp add: list_getitem_in_range)
  have "distances_from_embeddings (efs (strings ! nat i) model) ?E ''cosine''
        = Inr (distance_column (efs (strings ! nat i) model) ?E)"
    by (rule distances_from_embeddings_returns) (use assms(3) in auto)
  with q show ?thesis
    by (simp add: recommendations_from_strings_def indices_of_nearest_neighbors_from_distances_def)
qed


section \<open>Running the model, and what a search returns\<close>

text \<open>The definitions a concrete run unfolds.\<close>

lemmas run_defs = search_reviews_def search_functions_def cosine_similarity_def np_dot_def dot_def
  linalg_norm_def np_divide_def set_similarities_def sort_values_similarities_def nargsort_def
  insertion_argsort_def reversing_argsort_def head_def unit_embedding_def letter_embedding_def
  Let_def

lemma search_by_column_length:
  assumes "argsort_ok argsort" "length column = length df"
    "\<forall>x\<in>set column. length x = length emb" "0 \<le> n"
  shows "\<exists>res. snd (search_by_column argsort emb column df n) = Inr res \<and>
           length res = min (nat n) (length df)"
  using assms
  by (simp add: search_by_column_returns length_head_nonneg ranked_length)

lemma search_by_column_labels:
  assumes "argsort_ok argsort" "length column = length df"
    "\<forall>x\<in>set column. length x = length emb" "int (length df) \<le> n"
  shows "\<exists>res. snd (search_by_column argsort emb column df n) = Inr res \<and>
           mset (map label res) = mset (map label df)"
proof -
  let ?col = "similarity_column emb column"
  have "snd (search_by_column argsort emb column df n) = Inr (ranked argsort df ?col)"
    using assms by (simp add: search_by_column_returns head_all ranked_length)
  moreover have "mset (map label (ranked argsort df ?col)) = mset (map label df)"
    by (rule ranked_labels) (use assms in simp_all)
  ultimately show ?thesis by blast
qed

lemma argsort_ok_Nil: "argsort_ok f \<Longrightarrow> f [] = []"
  using argsort_ok_mset[of f "[]"] by simp

lemma search_by_column_empty:
  "argsort_ok argsort \<Longrightarrow> search_by_column argsort emb [] [] n = ([], Inr [])"
  by (simp add: search_by_column_def set_similarities_def sort_values_similarities_def
      nargsort_def argsort_ok_Nil head_def)

lemma search_by_column_frame:
  assumes "length column = length df"
  shows "map (\<lambda>r. r\<lparr>similarities := None\<rparr>) (fst (search_by_column argsort emb column df n))
         = map (\<lambda>r. r\<lparr>similarities := None\<rparr>) df"
    and "snd (search_by_column argsort emb column df n) = Inl e \<Longrightarrow>
         fst (search_by_column argsort emb column df n) = df"
proof -
  have *: "length col = length df \<Longrightarrow>
        map (\<lambda>r. r\<lparr>similarities := None\<rparr>) (set_similarities df col)
        = map (\<lambda>r. r\<lparr>similarities := None\<rparr>) df" for col
    by (induction df col rule: list_induct2') (auto simp: set_similarities_def)
  show "map (\<lambda>r. r\<lparr>similarities := None\<rparr>) (fst (search_by_column argsort emb column df n))
         = map (\<lambda>r. r\<lparr>similarities := None\<rparr>) df"
  proof (cases "\<forall>x\<in>set column. length x = length emb")
    case True
    then show ?thesis
      by (simp add: search_by_column_returns[OF assms] * assms)
  next
    case False
    then show ?thesis by (simp add: search_by_column_raises)
  qed
  show "fst (search_by_column argsort emb column df n) = df"
    if "snd (search_by_column argsort emb column df n) = Inl e"
  proof (cases "\<forall>x\<in>set column. length x = length emb")
    case True
    with that show ?thesis by (simp add: search_by_column_returns[OF assms])
  next
    case False
    then show ?thesis by (simp add: search_by_column_raises)
  qed
qed

section \<open>Order of the result\<close>




section \<open>Dimension mismatch\<close>

text \<open>
  C4. When some candidate vector's length differs from the length of the query
  embedding, the search raises the error numpy reports for arrays of different shape
  (\<open>ValueError\<close>); no frame is returned, and the caller's frame is as it was before the
  call.
\<close>

theorem dimension_mismatch_raises:
  "((\<exists>r\<in>set df. length (ada_embedding r) \<noteq> length (get_embedding q ''text-embedding-3-small'')) \<longrightarrow>
      search_reviews argsort get_embedding df q n pprint = (df, Inl ValueError)) \<and>
   ((\<exists>r\<in>set df. length (code_embedding r) \<noteq> length (get_embedding q ''text-embedding-3-small'')) \<longrightarrow>
      search_functions argsort get_embedding df q n pprint n_lines = (df, Inl ValueError))"
  unfolding search_reviews_eq search_functions_eq
  by (intro conjI impI search_by_column_raises) simp_all

theorem dimension_mismatch_raises_witness:
  "search_reviews insertion_argsort unit_embedding
     [\<lparr>label = ''a'', ada_embedding = [1, 0], code_embedding = [1, 0], similarities = None\<rparr>,
      \<lparr>label = ''b'', ada_embedding = [1, 2, 3], code_embedding = [1, 2, 3], similarities = None\<rparr>]
     ''q'' (Some 2) True =
     ([\<lparr>label = ''a'', ada_embedding = [1, 0], code_embedding = [1, 0], similarities = None\<rparr>,
       \<lparr>label = ''b'', ada_embedding = [1, 2, 3], code_embedding = [1, 2, 3], similarities = None\<rparr>],
      Inl ValueError) \<and>
   search_functions insertion_argsort unit_embedding
     [\<lparr>label = ''a'', ada_embedding = [1, 0], code_embedding = [1, 0], similarities = None\<rparr>,
      \<lparr>label = ''b'', ada_embedding = [1, 2, 3], code_embedding = [1, 2, 3], similarities = None\<rparr>]
     ''q'' (Some 2) True 7 =
     ([\<lparr>label = ''a'', ada_embedding = [1, 0], code_embedding = [1, 0], similarities = None\<rparr>,
       \<lparr>label = ''b'', ada_embedding = [1, 2, 3], code_embedding = [1, 2, 3], similarities = None\<rparr>],
      Inl ValueError)"
  using dimension_mismatch_raises[of
      "[\<lparr>label = ''a'', ada_embedding = [1, 0], code_embedding = [1, 0], similarities = None\<rparr>,
        \<lparr>label = ''b'', ada_embedding = [1, 2, 3], code_embedding = [1, 2, 3], similarities = None\<rparr>]"
      unit_embedding "''q''" insertion_argsort "Some 2" True 7]
  by (simp add: unit_embedding_def)

section \<open>Length of the result\<close>

text \<open>
  C2, as stated, fails where \<open>n\<close> is left out: \<open>search_reviews\<close> then uses its default
  \<open>n = 3\<close> and returns three of the four rows below, not all of them.
\<close>

theorem default_n_is_three_counterexample:
  "length four_rows = 4 \<and>
   map_sum id (map label)
     (snd (search_reviews insertion_argsort unit_embedding four_rows ''q'' None True))
   = Inr [''a'', ''b'', ''c'']"
  by (simp add: run_defs four_rows_def)

text \<open>
  C2, amended. On a call that returns, \<open>search_reviews\<close> and \<open>search_functions\<close> give
  \<open>min(n, len(df))\<close> rows for a non-negative \<open>n\<close>, and \<open>min(3, len(df))\<close> rows when \<open>n\<close>
  is left out (the default is 3); \<open>recommendations_from_strings\<close>, which has no such
  parameter, gives one index per string.
\<close>

theorem result_length:
  assumes "argsort_ok argsort"
  shows "((\<forall>r\<in>set df. length (ada_embedding r) = length (get_embedding q ''text-embedding-3-small'')) \<longrightarrow>
            (0 \<le> k \<longrightarrow>
              (\<exists>res. snd (search_reviews argsort get_embedding df q (Some k) pprint) = Inr res \<and>
                     length res = min (nat k) (length df))) \<and>
            (\<exists>res. snd (search_reviews argsort get_embedding df q None pprint) = Inr res \<and>
                   length res = min 3 (length df))) \<and>
         ((\<forall>r\<in>set df. length (code_embedding r) = length (get_embedding q ''text-embedding-3-small'')) \<longrightarrow>
            (0 \<le> k \<longrightarrow>
              (\<exists>res. snd (search_functions argsort get_embedding df q (Some k) pprint n_lines) = Inr res \<and>
                     length res = min (nat k) (length df))) \<and>
            (\<exists>res. snd (search_functions argsort get_embedding df q None pprint n_lines) = Inr res \<and>
                   length res = min 3 (length df))) \<and>
         (0 \<le> i \<and> i < int (length strings) \<and>
          (\<forall>s\<in>set strings. length (embedding_from_string s model) =
                             length (embedding_from_string (strings ! nat i) model)) \<longrightarrow>
            (\<exists>indices.
               recommendations_from_strings argsort embedding_from_string strings i model = Inr indices \<and>
               length indices = length strings))"
proof -
  have len: "length (argsort xs) = length xs" for xs
    using argsort_ok_mset[OF assms, of xs] by (metis length_upt minus_nat.diff_0 size_mset)
  show ?thesis
    unfolding search_reviews_eq search_functions_eq
    using search_by_column_length[OF assms, of "map ada_embedding df" df _ 3]
      search_by_column_length[OF assms, of "map ada_embedding df" df _ k]
      search_by_column_length[OF assms, of "map code_embedding df" df _ 3]
      search_by_column_length[OF assms, of "map code_embedding df" df _ k]
    by (auto simp: recommendations_returns len)
qed

theorem result_length_witness:
  "(\<exists>res. snd (search_reviews insertion_argsort unit_embedding example_frame ''q'' (Some 2) True) = Inr res \<and>
          length res = min (nat 2) (length example_frame)) \<and>
   (\<exists>res. snd (search_reviews insertion_argsort unit_embedding example_frame ''q'' None True) = Inr res \<and>
          length res = min 3 (length example_frame)) \<and>
   (\<exists>res. snd (search_functions insertion_argsort unit_embedding example_frame ''q'' (Some 2) True 7) = Inr res \<and>
          length res = min (nat 2) (length example_frame)) \<and>
   (\<exists>indices.
      recommendations_from_strings insertion_argsort letter_embedding [''a'', ''b'', ''c''] 0 ''m'' = Inr indices \<and>
      length indices = length [''a'', ''b'', ''c''])"
  using result_length[OF argsort_ok_insertion_argsort,
      of example_frame unit_embedding "''q''" 2 True 7 0 "[''a'', ''b'', ''c'']" letter_embedding "''m''"]
  by (simp add: example_frame_def unit_embedding_def letter_embedding_def)

section \<open>Empty input\<close>

text \<open>
  C3, as stated, fails: on a frame without rows \<open>search_reviews\<close> raises nothing and
  returns the empty frame.
\<close>

theorem empty_frame_counterexample:
  "search_reviews insertion_argsort unit_embedding ([] :: string frame) ''q'' (Some 3) True = ([], Inr [])"
  by (simp add: run_defs)

text \<open>
  C3, amended. On an empty frame both searches return the empty frame and leave the
  caller's frame empty; no error for empty input exists in them.
  \<open>recommendations_from_strings\<close> on an empty list raises \<open>IndexError\<close>, from reading the
  source string's embedding. On any frame whose vectors have the length of the query
  embedding the searches raise nothing.
\<close>

theorem empty_input_returns_empty:
  assumes "argsort_ok argsort"
  shows "search_reviews argsort get_embedding [] q n pprint = ([], Inr []) \<and>
         search_functions argsort get_embedding [] q n pprint n_lines = ([], Inr []) \<and>
         recommendations_from_strings argsort embedding_from_string [] i model = Inl IndexError \<and>
         ((\<forall>r\<in>set df. length (ada_embedding r) = length (get_embedding q ''text-embedding-3-small'')) \<longrightarrow>
            (\<exists>res. snd (search_reviews argsort get_embedding df q n pprint) = Inr res)) \<and>
         ((\<forall>r\<in>set df. length (code_embedding r) = length (get_embedding q ''text-embedding-3-small'')) \<longrightarrow>
            (\<exists>res. snd (search_functions argsort get_embedding df q n pprint n_lines) = Inr res))"
  unfolding search_reviews_eq search_functions_eq
  by (simp add: search_by_column_empty[OF assms] search_by_column_returns
      recommendations_from_strings_def list_getitem_empty)

theorem empty_input_returns_empty_witness:
  "search_reviews insertion_argsort unit_embedding ([] :: string frame) ''q'' None True = ([], Inr []) \<and>
   search_functions insertion_argsort unit_embedding ([] :: string frame) ''q'' None True 7 = ([], Inr []) \<and>
   recommendations_from_strings insertion_argsort letter_embedding [] 0 ''m'' = Inl IndexError \<and>
   (\<exists>res. snd (search_reviews insertion_argsort unit_embedding example_frame ''q'' None True) = Inr res) \<and>
   (\<exists>res. snd (search_functions insertion_argsort unit_embedding example_frame ''q'' None True 7) = Inr res)"
  using empty_input_returns_empty[OF argsort_ok_insertion_argsort,
      of unit_embedding "''q''" None True 7 letter_embedding 0 "''m''" example_frame]
  by (simp add: example_frame_def unit_embedding_def)

section \<open>Effect on the caller's frame\<close>

text \<open>
  C8, as stated, fails: \<open>search_reviews\<close> assigns the column \<open>similarities\<close> of the frame
  it is given. Below the frame has no such column before the call and a full one after.
\<close>

theorem search_writes_frame_counterexample:
  "map similarities four_rows = [None, None, None, None] \<and>
   map similarities (fst (search_reviews insertion_argsort unit_embedding four_rows ''q'' (Some 2) True))
   = [Some (Fin 1), Some (Fin 0), Some (Fin (- 1)), Some NaN]"
  by (simp add: run_defs four_rows_def)

text \<open>
  C8, amended. A search changes nothing of the caller's frame but the column
  \<open>similarities\<close>: the rows, their order and every other cell are as before; and when the
  search raises, the frame is untouched altogether.
\<close>

theorem search_writes_only_similarities:
  "map (\<lambda>r. r\<lparr>similarities := None\<rparr>) (fst (search_reviews argsort get_embedding df q n pprint))
     = map (\<lambda>r. r\<lparr>similarities := None\<rparr>) df \<and>
   (\<forall>e. snd (search_reviews argsort get_embedding df q n pprint) = Inl e \<longrightarrow>
        fst (search_reviews argsort get_embedding df q n pprint) = df) \<and>
   map (\<lambda>r. r\<lparr>similarities := None\<rparr>) (fst (search_functions argsort get_embedding df q n pprint n_lines))
     = map (\<lambda>r. r\<lparr>similarities := None\<rparr>) df \<and>
   (\<forall>e. snd (search_functions argsort get_embedding df q n pprint n_lines) = Inl e \<longrightarrow>
        fst (search_functions argsort get_embedding df q n pprint n_lines) = df)"
  unfolding search_reviews_eq search_functions_eq
  by (intro conjI allI impI search_by_column_frame) simp_all

theorem search_writes_only_similarities_witness:
  "map (\<lambda>r. r\<lparr>similarities := None\<rparr>)
     (fst (search_reviews insertion_argsort unit_embedding four_rows ''q'' (Some 2) True))
     = four_rows \<and>
   fst (search_functions insertion_argsort (\<lambda>text model. [1, 0, 0]) four_rows ''q'' (Some 2) True 7) = four_rows"
proof -
  have "snd (search_functions insertion_argsort (\<lambda>text model. [1, 0, 0]) four_rows ''q'' (Some 2) True 7)
        = Inl ValueError"
    by (simp add: run_defs four_rows_def)
  moreover have "map (\<lambda>r. r\<lparr>similarities := None\<rparr>) four_rows = four_rows"
    by (simp add: four_rows_def)
  ultimately show ?thesis
    using search_writes_only_similarities[of insertion_argsort unit_embedding four_rows "''q''" "Some 2" True 7]
      search_writes_only_similarities[of insertion_argsort "\<lambda>text model. [1, 0, 0]" four_rows "''q''" "Some 2" True 7]
    by simp
qed

section \<open>Permutation of the candidates\<close>

text \<open>
  C10, as stated, fails where \<open>n\<close> is left out: the default \<open>n = 3\<close> truncates, so of four
  candidates one is dropped.
\<close>

theorem default_n_drops_candidates_counterexample:
  "map label four_rows = [''a'', ''b'', ''c'', ''d''] \<and>
   map_sum id (map label)
     (snd (search_functions insertion_argsort unit_embedding four_rows ''q'' None True 7))
   = Inr [''a'', ''b'', ''c'']"
  by (simp add: run_defs four_rows_def)

text \<open>
  C10, amended. On a call that returns with \<open>n \<ge> len(df)\<close> (for a left-out \<open>n\<close> that is
  \<open>3 \<ge> len(df)\<close>), the labels of the returned rows are the labels of the frame, each as
  often as there; and \<open>recommendations_from_strings\<close> returns every index
  \<open>0 .. len(strings) - 1\<close> once, the source string's among them.
\<close>

theorem untruncated_ranking_is_permutation:
  assumes "argsort_ok argsort"
  shows "((\<forall>r\<in>set df. length (ada_embedding r) = length (get_embedding q ''text-embedding-3-small'')) \<and>
          int (length df) \<le> (case n of None \<Rightarrow> 3 | Some k \<Rightarrow> k) \<longrightarrow>
            (\<exists>res. snd (search_reviews argsort get_embedding df q n pprint) = Inr res \<and>
                   mset (map label res) = mset (map label df))) \<and>
         ((\<forall>r\<in>set df. length (code_embedding r) = length (get_embedding q ''text-embedding-3-small'')) \<and>
          int (length df) \<le> (case n of None \<Rightarrow> 3 | Some k \<Rightarrow> k) \<longrightarrow>
            (\<exists>res. snd (search_functions argsort get_embedding df q n pprint n_lines) = Inr res \<and>
                   mset (map label res) = mset (map label df))) \<and>
         (0 \<le> i \<and> i < int (length strings) \<and>
          (\<forall>s\<in>set strings. length (embedding_from_string s model) =
                             length (embedding_from_string (strings ! nat i) model)) \<longrightarrow>
            (\<exists>indices.
               recommendations_from_strings argsort embedding_from_string strings i model = Inr indices \<and>
               mset indices = mset [0..<length strings] \<and> nat i \<in> set indices))"
proof -
  have "nat i \<in> set (argsort xs)" if "0 \<le> i" "i < int (length xs)" for xs
    using argsort_ok_set[OF assms, of xs] that by auto
  then show ?thesis
    unfolding search_reviews_eq search_functions_eq
    using search_by_column_labels[OF assms, of "map ada_embedding df" df]
      search_by_column_labels[OF assms, of "map code_embedding df" df]
    by (auto simp: recommendations_returns argsort_ok_mset[OF assms])
qed

theorem untruncated_ranking_is_permutation_witness:
  "(\<exists>res. snd (search_reviews insertion_argsort unit_embedding example_frame ''q'' None True) = Inr res \<and>
          mset (map label res) = mset (map label example_frame)) \<and>
   (\<exists>res. snd (search_functions insertion_argsort unit_embedding example_frame ''q'' (Some 5) True 7) = Inr res \<and>
          mset (map label res) = mset (map label example_frame)) \<and>
   (\<exists>indices.
      recommendations_from_strings insertion_argsort letter_embedding [''a'', ''b'', ''c''] 1 ''m'' = Inr indices \<and>
      mset indices = mset [0..<length [''a'', ''b'', ''c'']] \<and> nat 1 \<in> set indices)"
  using untruncated_ranking_is_permutation[OF argsort_ok_insertion_argsort,
      of example_frame unit_embedding "''q''" None True]
    untruncated_ranking_is_permutation[OF argsort_ok_insertion_argsort,
      of example_frame unit_embedding "''q''" "Some 5" True 7 1 "[''a'', ''b'', ''c'']" letter_embedding "''m''"]
  by (simp add: example_frame_def unit_embedding_def letter_embedding_def)

section \<open>The cosine of two vectors\<close>

text \<open>The Cauchy-Schwarz inequality for lists of reals, and what follows for the norms.\<close>

lemma cs_step:
  fixes s x y A B :: real
  assumes "s\<^sup>2 \<le> A * B" "0 \<le> A" "0 \<le> B"
  shows "(s + x * y)\<^sup>2 \<le> (A + x * x) * (B + y * y)"
proof -
  let ?u = "A * y\<^sup>2" and ?v = "B * x\<^sup>2"
  have uv: "0 \<le> ?u" "0 \<le> ?v" using assms by simp_all
  have "(2 * s * x * y)\<^sup>2 = 4 * (s\<^sup>2 * (x\<^sup>2 * y\<^sup>2))"
    by (simp add: power2_eq_square)
  also have "\<dots> \<le> 4 * ((A * B) * (x\<^sup>2 * y\<^sup>2))"
    using assms(1) by (intro mult_left_mono mult_right_mono) simp_all
  also have "\<dots> = 4 * (?u * ?v)" by (simp add: ac_simps)
  also have "\<dots> \<le> (?u + ?v)\<^sup>2"
    using sum_squares_bound[of ?u ?v] by (simp add: power2_sum algebra_simps)
  finally have "2 * s * x * y \<le> ?u + ?v"
    using uv by (smt (verit) power2_le_imp_le add_nonneg_nonneg)
  then show ?thesis
    using assms(1) by (simp add: power2_eq_square algebra_simps)
qed

lemma dot_self: "dot a a = sum_list (map (\<lambda>x. x * x) a)"
  by (induction a) (simp_all add: dot_def)

lemma dot_self_nonneg: "0 \<le> dot a a"
  unfolding dot_self by (induction a) simp_all

lemma linalg_norm_sqrt: "linalg_norm a = sqrt (dot a a)"
  by (simp add: linalg_norm_def dot_self)

lemma cauchy_schwarz:
  "length a = length b \<Longrightarrow> (dot a b)\<^sup>2 \<le> dot a a * dot b b"
proof (induction a b rule: list_induct2)
  case Nil
  then show ?case by (simp add: dot_def)
next
  case (Cons x xs y ys)
  have "dot (x # xs) (y # ys) = dot xs ys + x * y" by (simp add: dot_def)
  moreover have "dot (x # xs) (x # xs) = dot xs xs + x * x" by (simp add: dot_def)
  moreover have "dot (y # ys) (y # ys) = dot ys ys + y * y" by (simp add: dot_def)
  ultimately show ?case
    using cs_step[OF Cons.IH dot_self_nonneg dot_self_nonneg, of x y] by simp
qed

lemma abs_dot_le_norms:
  assumes "length a = length b"
  shows "\<bar>dot a b\<bar> \<le> linalg_norm a * linalg_norm b"
proof -
  have "\<bar>dot a b\<bar> = sqrt ((dot a b)\<^sup>2)" by simp
  also have "\<dots> \<le> sqrt (dot a a * dot b b)"
    using cauchy_schwarz[OF assms] by (simp only: real_sqrt_le_iff)
  also have "\<dots> = linalg_norm a * linalg_norm b"
    by (simp add: linalg_norm_sqrt real_sqrt_mult)
  finally show ?thesis .
qed

lemma dot_eq_0_if_norm_0:
  "length a = length b \<Longrightarrow> linalg_norm a * linalg_norm b = 0 \<Longrightarrow> dot a b = 0"
  by (metis abs_dot_le_norms abs_le_zero_iff)

lemma linalg_norm_nonneg: "0 \<le> linalg_norm a"
  by (simp add: linalg_norm_sqrt dot_self_nonneg)

lemma dot_self_norm: "dot a a = linalg_norm a * linalg_norm a"
  by (simp add: linalg_norm_sqrt dot_self_nonneg)









section \<open>Ties\<close>

lemma sorted_reading_unique:
  assumes "argsort_ok f" and "argsort_ok g"
  shows "map (\<lambda>j. xs ! j) (f xs) = map (\<lambda>j. xs ! j) (g xs)"
proof -
  have "sort_key np_key xs = map (\<lambda>j. xs ! j) (h xs)" if "argsort_ok h" for h
  proof (rule sort_key_inj_key_eq)
    show "mset xs = mset (map (\<lambda>j. xs ! j) (h xs))"
      using take_through_perm[OF argsort_ok_mset[OF that], of xs] by simp
    show "inj_on np_key (set xs)"
      using inj_np_key by (rule inj_on_subset) simp
    show "sorted (map np_key (map (\<lambda>j. xs ! j) (h xs)))"
      using argsort_ok_sorted[OF that, of xs] by (simp add: comp_def)
  qed
  from this[OF assms(1)] this[OF assms(2)] show ?thesis by simp
qed

lemma nargsort_values_unique:
  assumes "argsort_ok f" and "argsort_ok g"
  shows "map (\<lambda>i. items ! i) (nargsort f items False) = map (\<lambda>i. items ! i) (nargsort g items False)"
  unfolding nargsort_desc_values[OF assms(1)] nargsort_desc_values[OF assms(2)]
  using sorted_reading_unique[OF assms, of "rev (filter (\<lambda>v. v \<noteq> NaN) items)"] by simp

lemma nargsort_unique_if_distinct:
  assumes "argsort_ok f" and "argsort_ok g" and "distinct items"
  shows "nargsort f items False = nargsort g items False"
proof -
  have "inj_on (\<lambda>i. items ! i) {0..<length items}"
    using assms(3) by (auto simp: inj_on_def nth_eq_iff_index_eq)
  then have "inj_on (\<lambda>i. items ! i) (set (nargsort f items False) \<union> set (nargsort g items False))"
    by (simp add: nargsort_set assms(1,2))
  then show ?thesis
    using nargsort_values_unique[OF assms(1,2), of items] by (simp add: inj_on_map_eq_map)
qed

lemma search_by_column_independent:
  assumes "argsort_ok f" and "argsort_ok g" and "length column = length df"
  shows "fst (search_by_column f emb column df n) = fst (search_by_column g emb column df n)"
    and "map_sum id (map similarities) (snd (search_by_column f emb column df n))
         = map_sum id (map similarities) (snd (search_by_column g emb column df n))"
    and "distinct (map similarities (fst (search_by_column f emb column df n))) \<Longrightarrow>
         search_by_column f emb column df n = search_by_column g emb column df n"
proof -
  let ?col = "similarity_column emb column"
  have len: "length ?col = length df" using assms(3) by simp
  show "fst (search_by_column f emb column df n) = fst (search_by_column g emb column df n)"
    by (cases "\<forall>x\<in>set column. length x = length emb")
      (simp_all add: search_by_column_returns[OF assms(3)] search_by_column_raises)
  show "map_sum id (map similarities) (snd (search_by_column f emb column df n))
         = map_sum id (map similarities) (snd (search_by_column g emb column df n))"
  proof (cases "\<forall>x\<in>set column. length x = length emb")
    case True
    then show ?thesis
      using nargsort_values_unique[OF assms(1,2), of ?col]
      by (simp add: search_by_column_returns[OF assms(3)] head_map[symmetric]
          ranked_similarities[OF assms(1) len] ranked_similarities[OF assms(2) len])
  next
    case False
    then show ?thesis by (simp add: search_by_column_raises)
  qed
  show "search_by_column f emb column df n = search_by_column g emb column df n"
    if d: "distinct (map similarities (fst (search_by_column f emb column df n)))"
  proof (cases "\<forall>x\<in>set column. length x = length emb")
    case True
    with d have "distinct (map Some ?col)"
      by (simp add: search_by_column_returns[OF assms(3)] similarities_set_similarities[OF len])
    then have "distinct ?col" by (simp add: distinct_map)
    from nargsort_unique_if_distinct[OF assms(1,2) this] True show ?thesis
      by (simp add: search_by_column_returns[OF assms(3)] ranked_def)
  next
    case False
    then show ?thesis by (simp add: search_by_column_raises)
  qed
qed





section \<open>The example\<close>

lemma inv_sqrt2_bounds: "7 / 10 < 1 / sqrt 2" "1 / sqrt 2 < 71 / 100"
proof -
  have "sqrt 2 < 10 / 7" by (rule real_less_lsqrt) (simp_all add: power2_eq_square)
  then show "7 / 10 < 1 / sqrt 2" by (simp add: field_simps)
  have "100 / 71 < sqrt 2" by (rule real_less_rsqrt) (simp add: power2_eq_square)
  then show "1 / sqrt 2 < 71 / 100" by (simp add: field_simps)
qed

text \<open>
  C9. For the candidates \<open>a = [1, 0]\<close>, \<open>b = [0, 1]\<close>, \<open>c = [1, 1]\<close>, the query embedding
  \<open>[1, 0]\<close> and \<open>n = 2\<close>, \<open>search_reviews\<close> returns the rows \<open>a\<close> and \<open>c\<close>, in this
  order, with similarities 1 and \<open>1 / sqrt 2\<close>: cosine distances 0 and \<open>1 - 1 / sqrt 2\<close>,
  which lies between 0.29 and 0.30.
\<close>

theorem spec_example:
  assumes "argsort_ok argsort" and "get_embedding q ''text-embedding-3-small'' = [1, 0]"
  shows "\<exists>res. snd (search_reviews argsort get_embedding example_frame q (Some 2) pprint) = Inr res \<and>
           map (\<lambda>r. (label r, similarities r)) res
             = [(''a'', Some (Fin 1)), (''c'', Some (Fin (1 / sqrt 2)))] \<and>
           map (\<lambda>r. (label r, map_option distance_of_similarity (similarities r))) res
             = [(''a'', Some (Fin 0)), (''c'', Some (Fin (1 - 1 / sqrt 2)))] \<and>
           29 / 100 < 1 - 1 / sqrt 2 \<and> 1 - 1 / sqrt 2 < 3 / 10"
proof -
  let ?emb = "[1, 0] :: vector"
  let ?column = "map ada_embedding example_frame"
  have col: "similarity_column ?emb ?column = [Fin 1, Fin 0, Fin (1 / sqrt 2)]"
    by (simp add: similarity_column_def example_frame_def np_divide_def dot_def linalg_norm_def)
  have ne: "1 / sqrt 2 \<noteq> 1" "1 / sqrt 2 \<noteq> 0" using inv_sqrt2_bounds by auto
  have ret: "search_by_column h ?emb ?column example_frame 2
             = (set_similarities example_frame [Fin 1, Fin 0, Fin (1 / sqrt 2)],
                Inr (head (ranked h example_frame [Fin 1, Fin 0, Fin (1 / sqrt 2)]) 2))" for h
    unfolding col[symmetric]
    by (rule search_by_column_returns) (simp_all add: example_frame_def)
  have "map similarities (set_similarities example_frame [Fin 1, Fin 0, Fin (1 / sqrt 2)])
        = map Some [Fin 1, Fin 0, Fin (1 / sqrt 2)]"
    by (rule similarities_set_similarities) (simp add: example_frame_def)
  then have "distinct (map similarities (fst (search_by_column argsort ?emb ?column example_frame 2)))"
    using ne by (simp add: ret)
  then have eq: "search_by_column argsort ?emb ?column example_frame 2
             = search_by_column insertion_argsort ?emb ?column example_frame 2"
    by (intro search_by_column_independent(3)[OF assms(1) argsort_ok_insertion_argsort]) simp_all
  have ord: "np_key (Fin (1 / sqrt 2)) \<le> np_key (Fin 1)" "\<not> np_key (Fin (1 / sqrt 2)) \<le> np_key (Fin 0)"
    using inv_sqrt2_bounds by auto
  have "snd (search_by_column insertion_argsort ?emb ?column example_frame 2)
        = Inr [\<lparr>label = ''a'', ada_embedding = [1, 0], code_embedding = [1, 0], similarities = Some (Fin 1)\<rparr>,
               \<lparr>label = ''c'', ada_embedding = [1, 1], code_embedding = [1, 1], similarities = Some (Fin (1 / sqrt 2))\<rparr>]"
    using ord ne
    unfolding ret snd_conv
    by (simp add: ranked_def example_frame_def set_similarities_def nargsort_def
        insertion_argsort_def head_def Let_def)
  with eq inv_sqrt2_bounds show ?thesis
    unfolding search_reviews_eq assms(2) by simp
qed

theorem spec_example_witness:
  "\<exists>res. snd (search_reviews insertion_argsort unit_embedding example_frame ''q'' (Some 2) True) = Inr res \<and>
           map (\<lambda>r. (label r, similarities r)) res
             = [(''a'', Some (Fin 1)), (''c'', Some (Fin (1 / sqrt 2)))] \<and>
           map (\<lambda>r. (label r, map_option distance_of_similarity (similarities r))) res
             = [(''a'', Some (Fin 0)), (''c'', Some (Fin (1 - 1 / sqrt 2)))] \<and>
           29 / 100 < 1 - 1 / sqrt 2 \<and> 1 - 1 / sqrt 2 < 3 / 10"
  by (rule spec_example[OF argsort_ok_insertion_argsort]) (simp add: unit_embedding_def)

section \<open>A candidate equal to the query\<close>









end
